theory Spec2Isabelle
  imports Main "HOL-Library.Sublist"
begin

section \<open>JavaScript values, objects and the world\<close>

text \<open>
  Scope and metadata objects are JavaScript objects, handed around by reference: the
  constructor stores the reference it is given (\<^verbatim>\<open>this._scope = scope\<close>) and
  \<^verbatim>\<open>getCurrentScope\<close> returns it. The objects therefore live in an explicit heap,
  a list indexed by address; allocation appends. An object is a finite map from property
  names to values (the order of the properties is not modelled: nothing below depends on
  it). A property holding \<^verbatim>\<open>undefined\<close> is present, with the value \<open>JUndefined\<close>;
  an absent property is \<open>None\<close>. Numbers are kept to the integers; nothing below
  computes with them.
\<close>

type_synonym addr = nat

datatype jsval = JUndefined | JNull | JBool bool | JNum int | JStr string | JRef addr

type_synonym obj = "string \<rightharpoonup> jsval"

datatype console_method = console_error | console_warn | console_info | console_log | console_debug

type_synonym console_call = "console_method \<times> string \<times> jsval list"

text \<open>
  The world that JavaScript code can read and write: the heap, \<^verbatim>\<open>process.env\<close>
  (whose values are always strings in Node), the calls made on \<^verbatim>\<open>console\<close> so far,
  and whatever else consumer code keeps (\<open>ext\<close>).
\<close>

record 'u world =
  heap :: "obj list"
  env :: "string \<rightharpoonup> string"
  console :: "console_call list"
  ext :: 'u

text \<open>
  A JavaScript computation returning \<open>'a\<close>: it transforms the world and either
  throws (\<open>Inl\<close> the thrown value) or returns (\<open>Inr\<close>).
\<close>

type_synonym ('a, 'u) js = "'u world \<Rightarrow> (jsval + 'a) \<times> 'u world"

text \<open>
  A reference is an index into the heap. JavaScript has no dangling reference; a property
  below that needs a reference to lie in the heap says so (\<open>r < length (heap w)\<close>).
\<close>

definition deref :: "'u world \<Rightarrow> addr \<Rightarrow> obj" where
  "deref w r = heap w ! r"

definition alloc :: "obj \<Rightarrow> 'u world \<Rightarrow> addr \<times> 'u world" where
  "alloc ob w = (length (heap w), w\<lparr>heap := heap w @ [ob]\<rparr>)"

text \<open>The object spread \<^verbatim>\<open>{...target, ...src}\<close> copies every own property of
  \<open>src\<close> onto the object built so far.\<close>

definition spread :: "obj \<Rightarrow> obj \<Rightarrow> obj" where
  "spread target src = target ++ src"

text \<open>The assignment \<^verbatim>\<open>ref[k] = v\<close>, as a caller holding a reference can perform it.\<close>

definition assign_property :: "addr \<Rightarrow> string \<Rightarrow> jsval \<Rightarrow> 'u world \<Rightarrow> 'u world" where
  "assign_property r k v w = w\<lparr>heap := (heap w)[r := (heap w ! r)(k \<mapsto> v)]\<rparr>"

section \<open>LogLevel, LogFunction, LogFunctionFactory\<close>

datatype LogLevel = ERROR | WARNING | INFO | DEBUG

fun LogLevel_value :: "LogLevel \<Rightarrow> string" where
  "LogLevel_value ERROR = ''error''"
| "LogLevel_value WARNING = ''warning''"
| "LogLevel_value INFO = ''info''"
| "LogLevel_value DEBUG = ''debug''"

text \<open>
  \<^verbatim>\<open>(level, message, meta?) => void\<close>: an omitted \<open>meta\<close> reads as
  \<open>JUndefined\<close>. The value the function returns is kept, since the Logger's methods
  return it.
\<close>

type_synonym 'u LogFunction = "LogLevel \<Rightarrow> string \<Rightarrow> jsval \<Rightarrow> (jsval, 'u) js"

type_synonym 'u LogFunctionFactory = "addr \<Rightarrow> ('u LogFunction, 'u) js"

text \<open>
  The calls the Logger itself makes on consumer code are recorded in a call log kept
  beside the world, out of the reach of consumer code.
\<close>

datatype 'u call =
    FactoryCall "'u LogFunctionFactory" addr
  | LogCall "'u LogFunction" LogLevel string jsval

type_synonym 'u run = "'u world \<times> 'u call list"

definition invoke_factory ::
  "'u LogFunctionFactory \<Rightarrow> addr \<Rightarrow> 'u run \<Rightarrow> (jsval + 'u LogFunction) \<times> 'u run" where
  "invoke_factory f r = (\<lambda>(w, t).
     case f r w of (res, w') \<Rightarrow> (res, (w', t @ [FactoryCall f r])))"

definition invoke_log ::
  "'u LogFunction \<Rightarrow> LogLevel \<Rightarrow> string \<Rightarrow> jsval \<Rightarrow> 'u run \<Rightarrow> (jsval + jsval) \<times> 'u run" where
  "invoke_log lf level message meta = (\<lambda>(w, t).
     case lf level message meta w of
       (res, w') \<Rightarrow> (res, (w', t @ [LogCall lf level message meta])))"

section \<open>Logger\<close>

text \<open>
  The three private fields are assigned in the constructor and nowhere else, so a Logger
  is an immutable record; its scope field holds a reference into the heap.
\<close>

record 'u Logger =
  this_scope :: addr
  this_logFactory :: "'u LogFunctionFactory"
  this_log :: "'u LogFunction"

text \<open>\<^verbatim>\<open>constructor(logFactory, scope = {})\<close>: \<open>None\<close> is the omitted argument,
  for which a fresh empty object is allocated.\<close>

definition Logger_new ::
  "'u LogFunctionFactory \<Rightarrow> addr option \<Rightarrow> 'u run \<Rightarrow> (jsval + 'u Logger) \<times> 'u run" where
  "Logger_new logFactory scope_arg = (\<lambda>(w, t).
     let (scope, w1) = (case scope_arg of Some r \<Rightarrow> (r, w) | None \<Rightarrow> alloc Map.empty w) in
     case invoke_factory logFactory scope (w1, t) of
       (Inl e, run') \<Rightarrow> (Inl e, run')
     | (Inr lf, run') \<Rightarrow>
         (Inr \<lparr>this_scope = scope, this_logFactory = logFactory, this_log = lf\<rparr>, run'))"

definition scope :: "'u Logger \<Rightarrow> addr \<Rightarrow> 'u run \<Rightarrow> (jsval + 'u Logger) \<times> 'u run" where
  "scope this additionalScope = (\<lambda>(w, t).
     let (merged, w1) =
           alloc (spread (spread Map.empty (deref w (this_scope this)))
                         (deref w additionalScope)) w
     in Logger_new (this_logFactory this) (Some merged) (w1, t))"

definition getCurrentScope :: "'u Logger \<Rightarrow> addr" where
  "getCurrentScope this = this_scope this"

definition error :: "'u Logger \<Rightarrow> string \<Rightarrow> jsval \<Rightarrow> 'u run \<Rightarrow> (jsval + jsval) \<times> 'u run" where
  "error this message meta = invoke_log (this_log this) ERROR message meta"

definition warn :: "'u Logger \<Rightarrow> string \<Rightarrow> jsval \<Rightarrow> 'u run \<Rightarrow> (jsval + jsval) \<times> 'u run" where
  "warn this message meta = invoke_log (this_log this) WARNING message meta"

definition info :: "'u Logger \<Rightarrow> string \<Rightarrow> jsval \<Rightarrow> 'u run \<Rightarrow> (jsval + jsval) \<times> 'u run" where
  "info this message meta = invoke_log (this_log this) INFO message meta"

definition debug :: "'u Logger \<Rightarrow> string \<Rightarrow> jsval \<Rightarrow> 'u run \<Rightarrow> (jsval + jsval) \<times> 'u run" where
  "debug this message meta = invoke_log (this_log this) DEBUG message meta"

section \<open>The console log factory\<close>

record 'u ConsoleLogConfig =
  format :: string
  formatParameters :: "LogLevel \<Rightarrow> string \<Rightarrow> addr \<Rightarrow> (jsval list, 'u) js"

text \<open>\<^verbatim>\<open>level.toUpperCase()\<close> is only ever applied to the four level values, which
  are lower-case ASCII; other characters are left as they are.\<close>

definition toUpperCase :: "string \<Rightarrow> string" where
  "toUpperCase s =
     map (\<lambda>c. case map_of (zip ''abcdefghijklmnopqrstuvwxyz'' ''ABCDEFGHIJKLMNOPQRSTUVWXYZ'') c of
                Some u \<Rightarrow> u | None \<Rightarrow> c) s"

text \<open>The default value of the parameter of \<^verbatim>\<open>makeConsoleLogFactory\<close>.\<close>

definition default_ConsoleLogConfig :: "'u ConsoleLogConfig" where
  "default_ConsoleLogConfig =
     \<lparr>format = ''%s: %s (%O)'',
      formatParameters = (\<lambda>level message scope w.
        (Inr [JStr (toUpperCase (LogLevel_value level)), JStr message, JRef scope], w))\<rparr>"

text \<open>The truth value JavaScript gives \<^verbatim>\<open>process.env.NAME\<close>: \<^verbatim>\<open>undefined\<close>
  (the variable is absent) and the empty string are falsy, every other string is truthy.\<close>

definition truthy :: "string option \<Rightarrow> bool" where
  "truthy v = (case v of None \<Rightarrow> False | Some s \<Rightarrow> s \<noteq> [])"

text \<open>The \<^verbatim>\<open>switch (level)\<close> that picks the console method; its \<^verbatim>\<open>default\<close>
  branch is the last equation.\<close>

fun console_method_of :: "LogLevel \<Rightarrow> console_method" where
  "console_method_of ERROR = console_error"
| "console_method_of WARNING = console_warn"
| "console_method_of INFO = console_info"
| "console_method_of _ = console_log"

text \<open>
  The log function that \<^verbatim>\<open>consoleLogFactory(scope)\<close> returns. It declares the two
  parameters \<open>level\<close> and \<open>message\<close> only, so a third argument is ignored. A console
  call \<^verbatim>\<open>console[method](format, ...params)\<close> is recorded as it is made; the text
  that Node's formatter makes of it is outside this repository.
\<close>

definition consoleLogFunction :: "'u ConsoleLogConfig \<Rightarrow> addr \<Rightarrow> 'u LogFunction" where
  "consoleLogFunction config = (\<lambda>scope level message meta w.
     if level = DEBUG \<and> \<not> truthy (env w ''GRAPHILE_LOGGER_DEBUG'') then (Inr JUndefined, w)
     else
       let method = console_method_of level in
       case formatParameters config level message scope w of
         (Inl e, w') \<Rightarrow> (Inl e, w')
       | (Inr ps, w') \<Rightarrow>
           (Inr JUndefined, w'\<lparr>console := console w' @ [(method, format config, ps)]\<rparr>))"

definition makeConsoleLogFactory :: "'u ConsoleLogConfig option \<Rightarrow> 'u LogFunctionFactory" where
  "makeConsoleLogFactory config_arg =
     (let config = (case config_arg of None \<Rightarrow> default_ConsoleLogConfig | Some c \<Rightarrow> c)
      in (\<lambda>scope w. (Inr (consoleLogFunction config scope), w)))"

definition consoleLogFactory :: "'u LogFunctionFactory" where
  "consoleLogFactory = makeConsoleLogFactory None"

section \<open>What is assumed of consumer code\<close>

text \<open>
  A factory is consumer code and may do anything to the world, the heap included. Where
  a property speaks of the contents of a scope object after a factory has run, it needs
  the factory to leave the objects that exist alone: it may allocate, it does not
  overwrite or drop. The Logger's own code never writes to an existing object.
\<close>

definition heap_stable :: "'u LogFunctionFactory \<Rightarrow> bool" where
  "heap_stable f = (\<forall>r w. prefix (heap w) (heap (snd (f r w))))"

section \<open>Auxiliary facts\<close>

lemma scope_unfold:
  "scope lg x (w, t) =
    (case this_logFactory lg (length (heap w))
            (w\<lparr>heap := heap w @ [spread (spread Map.empty (deref w (this_scope lg))) (deref w x)]\<rparr>) of
       (Inl e, w') \<Rightarrow> (Inl e, (w', t @ [FactoryCall (this_logFactory lg) (length (heap w))]))
     | (Inr lf, w') \<Rightarrow>
         (Inr \<lparr>this_scope = length (heap w), this_logFactory = this_logFactory lg, this_log = lf\<rparr>,
          (w', t @ [FactoryCall (this_logFactory lg) (length (heap w))])))"
  by (simp add: scope_def Logger_new_def alloc_def invoke_factory_def split: prod.splits sum.splits)

lemma scope_Inr:
  assumes "scope lg x (w, t) = (Inr child, (w', t'))"
  shows "this_scope child = length (heap w)"
    and "this_logFactory child = this_logFactory lg"
    and "this_logFactory lg (length (heap w))
            (w\<lparr>heap := heap w @ [spread (spread Map.empty (deref w (this_scope lg))) (deref w x)]\<rparr>)
          = (Inr (this_log child), w')"
    and "t' = t @ [FactoryCall (this_logFactory lg) (length (heap w))]"
  using assms unfolding scope_unfold by (auto split: prod.splits sum.splits)

lemma scope_world:
  "fst (snd (scope lg x (w, t))) =
     snd (this_logFactory lg (length (heap w))
            (w\<lparr>heap := heap w @ [spread (spread Map.empty (deref w (this_scope lg))) (deref w x)]\<rparr>))"
  unfolding scope_unfold by (auto split: prod.splits sum.splits)

lemma heap_stable_nth:
  assumes "heap_stable f" and "i < length (heap w)"
  shows "heap (snd (f r w)) ! i = heap w ! i"
proof -
  from assms(1) have "prefix (heap w) (heap (snd (f r w)))"
    by (simp add: heap_stable_def)
  then obtain ys where "heap (snd (f r w)) = heap w @ ys"
    by (auto simp: prefix_def)
  with assms(2) show ?thesis by (simp add: nth_append)
qed

lemma scope_keeps_objects:
  assumes "scope lg x (w, t) = (res, (w', t'))" and "heap_stable (this_logFactory lg)"
    and "i < length (heap w)"
  shows "deref w' i = deref w i"
proof -
  let ?w1 = "w\<lparr>heap := heap w @ [spread (spread Map.empty (deref w (this_scope lg))) (deref w x)]\<rparr>"
  have w': "w' = snd (this_logFactory lg (length (heap w)) ?w1)"
    using scope_world[of lg x w t] assms(1) by simp
  have "heap w' ! i = heap ?w1 ! i"
    unfolding w' by (rule heap_stable_nth[OF assms(2)]) (use assms(3) in simp)
  with assms(3) show ?thesis by (simp add: deref_def nth_append)
qed

lemma scope_merged:
  assumes "scope lg x (w, t) = (Inr child, (w', t'))" and "heap_stable (this_logFactory lg)"
  shows "deref w' (this_scope child) = deref w (this_scope lg) ++ deref w x"
proof -
  let ?w1 = "w\<lparr>heap := heap w @ [spread (spread Map.empty (deref w (this_scope lg))) (deref w x)]\<rparr>"
  have call: "this_logFactory lg (length (heap w)) ?w1 = (Inr (this_log child), w')"
    using scope_Inr(3)[OF assms(1)] .
  have w': "w' = snd (this_logFactory lg (length (heap w)) ?w1)"
    by (simp add: call)
  have r: "this_scope child = length (heap w)"
    using scope_Inr(1)[OF assms(1)] .
  have "heap w' ! length (heap w) = heap ?w1 ! length (heap w)"
    unfolding w' by (rule heap_stable_nth[OF assms(2)]) simp
  then show ?thesis by (simp add: deref_def r spread_def)
qed

lemma heap_stable_makeConsoleLogFactory: "heap_stable (makeConsoleLogFactory ca)"
  by (simp add: heap_stable_def makeConsoleLogFactory_def)

lemma makeConsoleLogFactory_returns:
  "makeConsoleLogFactory ca sc w0 =
     (Inr (consoleLogFunction (case ca of None \<Rightarrow> default_ConsoleLogConfig | Some c \<Rightarrow> c) sc), w0)"
  by (simp add: makeConsoleLogFactory_def)

lemma truthy_iff: "truthy v \<longleftrightarrow> (\<exists>s. v = Some s \<and> s \<noteq> [])"
  by (cases v) (simp_all add: truthy_def)

lemma toUpperCase_LogLevel_value:
  "toUpperCase (LogLevel_value level) =
     (case level of ERROR \<Rightarrow> ''ERROR'' | WARNING \<Rightarrow> ''WARNING''
                  | INFO \<Rightarrow> ''INFO'' | DEBUG \<Rightarrow> ''DEBUG'')"
  by (cases level) (simp_all add: toUpperCase_def)

lemma scope_returns:
  assumes "this_logFactory lg (length (heap w))
             (snd (alloc (deref w (this_scope lg) ++ deref w x) w)) = (Inr lf, w')"
  shows "scope lg x (w, t) =
           (Inr \<lparr>this_scope = length (heap w), this_logFactory = this_logFactory lg, this_log = lf\<rparr>,
            (w', t @ [FactoryCall (this_logFactory lg) (length (heap w))]))"
  using assms unfolding scope_unfold by (simp add: alloc_def spread_def)

lemma scope_chain_merged:
  assumes "scope lg a (w0, t0) = (Inr l1, (w1, t1))"
    and "scope l1 b (w1, t1) = (Inr l2, (w2, t2))"
    and "heap_stable (this_logFactory lg)"
  shows "deref w2 (getCurrentScope l2) = (deref w0 (getCurrentScope lg) ++ deref w0 a) ++ deref w1 b"
    and "\<forall>p. p < length (heap w1) \<longrightarrow> deref w2 p = deref w1 p"
proof -
  have f1: "this_logFactory l1 = this_logFactory lg"
    using scope_Inr(2)[OF assms(1)] .
  have st1: "heap_stable (this_logFactory l1)"
    using assms(3) by (simp add: f1)
  have m1: "deref w1 (this_scope l1) = deref w0 (this_scope lg) ++ deref w0 a"
    using scope_merged[OF assms(1) assms(3)] .
  have m2: "deref w2 (this_scope l2) = deref w1 (this_scope l1) ++ deref w1 b"
    using scope_merged[OF assms(2) st1] .
  show "deref w2 (getCurrentScope l2) =
      (deref w0 (getCurrentScope lg) ++ deref w0 a) ++ deref w1 b"
    by (simp add: getCurrentScope_def m1 m2)
  show "\<forall>p. p < length (heap w1) \<longrightarrow> deref w2 p = deref w1 p"
    using scope_keeps_objects[OF assms(2) st1] by blast
qed


section \<open>Scope chaining\<close>

text \<open>
  C1. Take any Logger and scopes \<open>A\<close> and \<open>B\<close>, the factory leaving existing objects
  alone. When the factory returns \<open>lf1\<close> on the merged scope that \<open>scope(A)\<close> hands
  it, \<open>scope(A)\<close> returns the Logger \<open>l1\<close> on that scope; when the factory returns
  \<open>lf2\<close> on the merged scope that \<open>l1.scope(B)\<close> hands it, \<open>l1.scope(B)\<close> returns
  the Logger \<open>l2\<close>. Then the object that \<open>l2.getCurrentScope()\<close> refers to is the
  first Logger's scope overlaid with \<open>A\<close> and then with \<open>B\<close> (each read when its
  \<open>scope\<close> call is made): a key of \<open>B\<close> has \<open>B\<close>'s value, a key of \<open>A\<close> that
  \<open>B\<close> lacks has \<open>A\<close>'s, any other key has the root's. The merge is shallow: where
  \<open>B\<close> holds a reference to an object, the result holds that same reference, and the
  object it refers to is what it was before the call.
\<close>

theorem scope_scope_getCurrentScope:
  assumes "this_logFactory lg (length (heap w0))
             (snd (alloc (deref w0 (getCurrentScope lg) ++ deref w0 a) w0)) = (Inr lf1, w1)"
    and "l1 = \<lparr>this_scope = length (heap w0), this_logFactory = this_logFactory lg,
               this_log = lf1\<rparr>"
    and "t1 = t0 @ [FactoryCall (this_logFactory lg) (length (heap w0))]"
    and "this_logFactory lg (length (heap w1))
             (snd (alloc (deref w1 (getCurrentScope l1) ++ deref w1 b) w1)) = (Inr lf2, w2)"
    and "l2 = \<lparr>this_scope = length (heap w1), this_logFactory = this_logFactory lg,
               this_log = lf2\<rparr>"
    and "t2 = t1 @ [FactoryCall (this_logFactory lg) (length (heap w1))]"
    and "heap_stable (this_logFactory lg)"
  shows "scope lg a (w0, t0) = (Inr l1, (w1, t1))
    \<and> scope l1 b (w1, t1) = (Inr l2, (w2, t2))
    \<and> deref w2 (getCurrentScope l2) = (deref w0 (getCurrentScope lg) ++ deref w0 a) ++ deref w1 b
    \<and> (\<forall>k v. deref w1 b k = Some v \<longrightarrow> deref w2 (getCurrentScope l2) k = Some v)
    \<and> (\<forall>k v. deref w1 b k = None \<longrightarrow> deref w0 a k = Some v \<longrightarrow>
          deref w2 (getCurrentScope l2) k = Some v)
    \<and> (\<forall>k. deref w1 b k = None \<longrightarrow> deref w0 a k = None \<longrightarrow>
          deref w2 (getCurrentScope l2) k = deref w0 (getCurrentScope lg) k)
    \<and> (\<forall>k p. deref w1 b k = Some (JRef p) \<longrightarrow> p < length (heap w1) \<longrightarrow>
          deref w2 (getCurrentScope l2) k = Some (JRef p) \<and> deref w2 p = deref w1 p)"
proof -
  have s1: "scope lg a (w0, t0) = (Inr l1, (w1, t1))"
    using scope_returns[of lg w0 a lf1 w1 t0] assms(1)
    by (simp add: assms(2) assms(3) getCurrentScope_def)
  have f1: "this_logFactory l1 = this_logFactory lg"
    by (simp add: assms(2))
  have s2: "scope l1 b (w1, t1) = (Inr l2, (w2, t2))"
    using scope_returns[of l1 w1 b lf2 w2 t1] assms(4)
    by (simp add: f1 assms(5) assms(6) getCurrentScope_def)
  have eq: "deref w2 (getCurrentScope l2) =
      (deref w0 (getCurrentScope lg) ++ deref w0 a) ++ deref w1 b"
    using scope_chain_merged(1)[OF s1 s2 assms(7)] .
  have keep: "\<forall>p. p < length (heap w1) \<longrightarrow> deref w2 p = deref w1 p"
    using scope_chain_merged(2)[OF s1 s2 assms(7)] .
  have rest: "(\<forall>k v. deref w1 b k = Some v \<longrightarrow> deref w2 (getCurrentScope l2) k = Some v)
    \<and> (\<forall>k v. deref w1 b k = None \<longrightarrow> deref w0 a k = Some v \<longrightarrow>
          deref w2 (getCurrentScope l2) k = Some v)
    \<and> (\<forall>k. deref w1 b k = None \<longrightarrow> deref w0 a k = None \<longrightarrow>
          deref w2 (getCurrentScope l2) k = deref w0 (getCurrentScope lg) k)
    \<and> (\<forall>k p. deref w1 b k = Some (JRef p) \<longrightarrow> p < length (heap w1) \<longrightarrow>
          deref w2 (getCurrentScope l2) k = Some (JRef p) \<and> deref w2 p = deref w1 p)"
    unfolding eq using keep by (auto simp: map_add_def)
  from s1 s2 eq rest show ?thesis by blast
qed

theorem scope_scope_getCurrentScope_witness:
  "(case scope \<lparr>this_scope = 0, this_logFactory = consoleLogFactory,
                this_log = consoleLogFunction default_ConsoleLogConfig 0\<rparr> 1
           (\<lparr>heap = [Map.empty,
                     [''workerId'' \<mapsto> JStr ''w1'', ''opts'' \<mapsto> JRef 3],
                     [''jobId'' \<mapsto> JNum 84, ''opts'' \<mapsto> JRef 4],
                     [''x'' \<mapsto> JNum 1],
                     [''y'' \<mapsto> JNum 2]],
             env = Map.empty, console = [], ext = ()\<rparr>, []) of
      (Inl e, run1) \<Rightarrow> False
    | (Inr l1, run1) \<Rightarrow>
        (case scope l1 2 run1 of
           (Inl e, run2) \<Rightarrow> False
         | (Inr l2, (w2, t2)) \<Rightarrow>
             deref w2 (getCurrentScope l2) ''workerId'' = Some (JStr ''w1'')
             \<and> deref w2 (getCurrentScope l2) ''jobId'' = Some (JNum 84)
             \<and> deref w2 (getCurrentScope l2) ''opts'' = Some (JRef 4)
             \<and> deref w2 (getCurrentScope l2) ''other'' = None
             \<and> deref w2 4 ''y'' = Some (JNum 2)
             \<and> deref w2 4 ''x'' = None))"
proof -
  let ?R = "Map.empty :: obj"
  let ?A = "[''workerId'' \<mapsto> JStr ''w1'', ''opts'' \<mapsto> JRef 3]"
  let ?B = "[''jobId'' \<mapsto> JNum 84, ''opts'' \<mapsto> JRef 4]"
  let ?X = "[''x'' \<mapsto> JNum 1]"
  let ?Y = "[''y'' \<mapsto> JNum 2]"
  let ?f = "consoleLogFactory :: unit LogFunctionFactory"
  let ?lf0 = "consoleLogFunction default_ConsoleLogConfig 0 :: unit LogFunction"
  let ?lf1 = "consoleLogFunction default_ConsoleLogConfig 5 :: unit LogFunction"
  let ?lf2 = "consoleLogFunction default_ConsoleLogConfig 6 :: unit LogFunction"
  let ?lg = "\<lparr>this_scope = 0, this_logFactory = ?f, this_log = ?lf0\<rparr>"
  let ?w0 = "\<lparr>heap = [?R, ?A, ?B, ?X, ?Y], env = Map.empty, console = [], ext = ()\<rparr>"
  let ?w1 = "\<lparr>heap = [?R, ?A, ?B, ?X, ?Y, ?A], env = Map.empty, console = [], ext = ()\<rparr>"
  let ?w2 = "\<lparr>heap = [?R, ?A, ?B, ?X, ?Y, ?A, ?A ++ ?B], env = Map.empty, console = [],
              ext = ()\<rparr>"
  let ?l1 = "\<lparr>this_scope = length (heap ?w0), this_logFactory = this_logFactory ?lg,
              this_log = ?lf1\<rparr>"
  let ?l2 = "\<lparr>this_scope = length (heap ?w1), this_logFactory = this_logFactory ?lg,
              this_log = ?lf2\<rparr>"
  let ?t1 = "[] @ [FactoryCall (this_logFactory ?lg) (length (heap ?w0))]"
  let ?t2 = "?t1 @ [FactoryCall (this_logFactory ?lg) (length (heap ?w1))]"
  have c1: "this_logFactory ?lg (length (heap ?w0))
             (snd (alloc (deref ?w0 (getCurrentScope ?lg) ++ deref ?w0 1) ?w0)) = (Inr ?lf1, ?w1)"
    by (simp add: consoleLogFactory_def makeConsoleLogFactory_def alloc_def deref_def
        getCurrentScope_def eval_nat_numeral)
  have c2: "this_logFactory ?lg (length (heap ?w1))
             (snd (alloc (deref ?w1 (getCurrentScope ?l1) ++ deref ?w1 2) ?w1)) = (Inr ?lf2, ?w2)"
    by (simp add: consoleLogFactory_def makeConsoleLogFactory_def alloc_def deref_def
        getCurrentScope_def eval_nat_numeral)
  have st: "heap_stable (this_logFactory ?lg)"
    by (simp add: consoleLogFactory_def heap_stable_makeConsoleLogFactory)
  note inst = scope_scope_getCurrentScope[OF c1 refl refl c2 refl refl st]
  have s1: "scope ?lg 1 (?w0, []) = (Inr ?l1, (?w1, ?t1))"
    using inst by blast
  have s2: "scope ?l1 2 (?w1, ?t1) = (Inr ?l2, (?w2, ?t2))"
    using inst by blast
  have merged: "deref ?w2 (getCurrentScope ?l2) =
      (deref ?w0 (getCurrentScope ?lg) ++ deref ?w0 1) ++ deref ?w1 2"
    using inst by blast
  have b: "deref ?w1 2 ''opts'' = Some (JRef 4)" and v: "4 < length (heap ?w1)"
    by (simp_all add: deref_def)
  have nested: "deref ?w2 4 = deref ?w1 4"
    using inst b v by blast
  have concl: "deref ?w2 (getCurrentScope ?l2) ''workerId'' = Some (JStr ''w1'')
      \<and> deref ?w2 (getCurrentScope ?l2) ''jobId'' = Some (JNum 84)
      \<and> deref ?w2 (getCurrentScope ?l2) ''opts'' = Some (JRef 4)
      \<and> deref ?w2 (getCurrentScope ?l2) ''other'' = None
      \<and> deref ?w2 4 ''y'' = Some (JNum 2)
      \<and> deref ?w2 4 ''x'' = None"
    unfolding merged nested by (simp add: deref_def getCurrentScope_def)
  show ?thesis
    by (simp only: s1 s2 prod.case sum.case) (rule concl)
qed

text \<open>
  C2, as amended. \<open>getCurrentScope\<close> returns the Logger's own scope reference, which
  for a Logger built by the constructor is the very reference the caller passed in; no
  copy is made and nothing is frozen. So a property assigned through the returned
  reference is a property of the Logger's scope from then on.
\<close>

theorem getCurrentScope_is_internal_reference:
  "getCurrentScope lg = this_scope lg
   \<and> (\<forall>lg'. fst (Logger_new f (Some r) (w, t)) = Inr lg' \<longrightarrow> getCurrentScope lg' = r)
   \<and> (this_scope lg < length (heap w) \<longrightarrow>
        deref (assign_property (getCurrentScope lg) k v w) (this_scope lg)
          = (deref w (this_scope lg))(k \<mapsto> v))"
  by (auto simp: getCurrentScope_def assign_property_def deref_def Logger_new_def
      invoke_factory_def split: prod.splits sum.splits)

theorem getCurrentScope_is_internal_reference_witness:
  "fst (Logger_new consoleLogFactory (Some 0)
          (\<lparr>heap = [[''a'' \<mapsto> JNum 1]], env = Map.empty, console = [], ext = ()\<rparr>, []))
     = Inr \<lparr>this_scope = 0, this_logFactory = consoleLogFactory,
            this_log = consoleLogFunction default_ConsoleLogConfig 0\<rparr>
   \<and> getCurrentScope \<lparr>this_scope = 0, this_logFactory = consoleLogFactory,
            this_log = consoleLogFunction default_ConsoleLogConfig 0 :: unit LogFunction\<rparr> = 0
   \<and> deref (assign_property 0 ''b'' (JNum 2)
        \<lparr>heap = [[''a'' \<mapsto> JNum 1]], env = Map.empty, console = [], ext = ()\<rparr>) 0
     = [''a'' \<mapsto> JNum 1, ''b'' \<mapsto> JNum 2]"
proof -
  let ?lg = "\<lparr>this_scope = 0, this_logFactory = consoleLogFactory,
              this_log = consoleLogFunction default_ConsoleLogConfig 0\<rparr> :: unit Logger"
  let ?w = "\<lparr>heap = [[''a'' \<mapsto> JNum 1]], env = Map.empty, console = [], ext = ()\<rparr>"
  have n: "fst (Logger_new consoleLogFactory (Some 0) (?w, [])) = Inr ?lg"
    by (simp add: Logger_new_def invoke_factory_def consoleLogFactory_def
        makeConsoleLogFactory_def)
  have v: "this_scope ?lg < length (heap ?w)"
    by simp
  note inst = getCurrentScope_is_internal_reference
      [of ?lg consoleLogFactory 0 ?w "[]" "''b''" "JNum 2"]
  from inst n have g: "getCurrentScope ?lg = 0"
    by blast
  from inst v have "deref (assign_property (getCurrentScope ?lg) ''b'' (JNum 2) ?w) (this_scope ?lg)
      = (deref ?w (this_scope ?lg))(''b'' \<mapsto> JNum 2)"
    by blast
  then have "deref (assign_property 0 ''b'' (JNum 2) ?w) 0 = [''a'' \<mapsto> JNum 1, ''b'' \<mapsto> JNum 2]"
    unfolding g by (simp add: deref_def)
  with n g show ?thesis by blast
qed

text \<open>
  The claim C2 as the specification states it (what \<open>getCurrentScope\<close> returns can be
  mutated without effect on the Logger) fails: the Logger built on the object at address
  0 has no property \<open>x\<close> in its scope, and has it once the caller has assigned \<open>x\<close>
  through the reference that \<open>getCurrentScope\<close> returned.
\<close>

theorem getCurrentScope_alias_counterexample:
  "Logger_new consoleLogFactory (Some 0)
      (\<lparr>heap = [Map.empty], env = Map.empty, console = [], ext = ()\<rparr>, [])
    = (Inr \<lparr>this_scope = 0, this_logFactory = consoleLogFactory,
             this_log = consoleLogFunction default_ConsoleLogConfig 0\<rparr>,
       (\<lparr>heap = [Map.empty], env = Map.empty, console = [], ext = ()\<rparr>,
        [FactoryCall consoleLogFactory 0]))
   \<and> deref \<lparr>heap = [Map.empty], env = Map.empty, console = [], ext = ()\<rparr>
        (this_scope \<lparr>this_scope = 0, this_logFactory = consoleLogFactory,
             this_log = consoleLogFunction default_ConsoleLogConfig 0 :: unit LogFunction\<rparr>)
        ''x'' = None
   \<and> deref (assign_property
               (getCurrentScope \<lparr>this_scope = 0, this_logFactory = consoleLogFactory,
                  this_log = consoleLogFunction default_ConsoleLogConfig 0 :: unit LogFunction\<rparr>)
               ''x'' (JNum 1)
               \<lparr>heap = [Map.empty], env = Map.empty, console = [], ext = ()\<rparr>)
        (this_scope \<lparr>this_scope = 0, this_logFactory = consoleLogFactory,
             this_log = consoleLogFunction default_ConsoleLogConfig 0 :: unit LogFunction\<rparr>)
        ''x'' = Some (JNum 1)"
  by (simp add: Logger_new_def invoke_factory_def consoleLogFactory_def makeConsoleLogFactory_def
      deref_def assign_property_def getCurrentScope_def)

text \<open>
  C5. \<open>scope(X)\<close> leaves the Logger it is called on as it was: the object that
  \<open>getCurrentScope()\<close> of the parent refers to has the same contents after the call
  (whether the factory returned or threw), the child's scope is another object than the
  parent's, the child holds the parent's factory, and a later assignment through the
  child's scope reference does not reach the parent's scope either. The parent's three
  fields themselves cannot change: no method assigns them. The factory is taken to leave
  existing objects alone, and the parent's scope to be an object of the heap.
\<close>

theorem scope_leaves_parent:
  assumes "scope lg x (w, t) = (res, (w', t'))"
    and "heap_stable (this_logFactory lg)"
    and "getCurrentScope lg < length (heap w)"
  shows "deref w' (getCurrentScope lg) = deref w (getCurrentScope lg)
    \<and> (\<forall>child. res = Inr child \<longrightarrow>
          getCurrentScope child \<noteq> getCurrentScope lg
          \<and> this_logFactory child = this_logFactory lg
          \<and> (\<forall>k v. deref (assign_property (getCurrentScope child) k v w') (getCurrentScope lg)
                    = deref w (getCurrentScope lg)))"
proof -
  have keep: "deref w' (getCurrentScope lg) = deref w (getCurrentScope lg)"
    using scope_keeps_objects[OF assms(1) assms(2) assms(3)] .
  have "getCurrentScope child \<noteq> getCurrentScope lg
          \<and> this_logFactory child = this_logFactory lg
          \<and> (\<forall>k v. deref (assign_property (getCurrentScope child) k v w') (getCurrentScope lg)
                    = deref w (getCurrentScope lg))" if r: "res = Inr child" for child
  proof -
    have s: "scope lg x (w, t) = (Inr child, (w', t'))"
      using assms(1) r by simp
    have c: "getCurrentScope child = length (heap w)"
      using scope_Inr(1)[OF s] by (simp add: getCurrentScope_def)
    have ne: "getCurrentScope child \<noteq> getCurrentScope lg"
      using c assms(3) by simp
    have "deref (assign_property (getCurrentScope child) k v w') (getCurrentScope lg)
            = deref w' (getCurrentScope lg)" for k v
      using ne by (simp add: assign_property_def deref_def)
    with keep ne scope_Inr(2)[OF s] show ?thesis by simp
  qed
  with keep show ?thesis by blast
qed

theorem scope_leaves_parent_witness:
  "(case scope \<lparr>this_scope = 0, this_logFactory = consoleLogFactory,
                this_log = consoleLogFunction default_ConsoleLogConfig 0\<rparr> 1
           (\<lparr>heap = [[''a'' \<mapsto> JNum 1], [''a'' \<mapsto> JNum 2, ''b'' \<mapsto> JNum 3]],
             env = Map.empty, console = [], ext = ()\<rparr>, []) of
      (Inl e, run') \<Rightarrow> False
    | (Inr child, (w', t')) \<Rightarrow>
        deref w' 0 ''a'' = Some (JNum 1) \<and> deref w' 0 ''b'' = None
        \<and> getCurrentScope child = 2
        \<and> deref w' 2 ''a'' = Some (JNum 2)
        \<and> deref (assign_property (getCurrentScope child) ''a'' (JNum 7) w') 0 ''a''
            = Some (JNum 1))"
proof -
  let ?P = "[''a'' \<mapsto> JNum 1]"
  let ?X = "[''a'' \<mapsto> JNum 2, ''b'' \<mapsto> JNum 3]"
  let ?lg = "\<lparr>this_scope = 0, this_logFactory = consoleLogFactory,
              this_log = consoleLogFunction default_ConsoleLogConfig 0\<rparr> :: unit Logger"
  let ?c = "\<lparr>this_scope = 2, this_logFactory = consoleLogFactory,
             this_log = consoleLogFunction default_ConsoleLogConfig 2\<rparr> :: unit Logger"
  let ?w = "\<lparr>heap = [?P, ?X], env = Map.empty, console = [], ext = ()\<rparr>"
  let ?w' = "\<lparr>heap = [?P, ?X, ?P ++ ?X], env = Map.empty, console = [], ext = ()\<rparr>"
  let ?t' = "[FactoryCall consoleLogFactory 2] :: unit call list"
  have s: "scope ?lg 1 (?w, []) = (Inr ?c, (?w', ?t'))"
    by (simp add: scope_unfold consoleLogFactory_def makeConsoleLogFactory_def deref_def
        spread_def eval_nat_numeral)
  have st: "heap_stable (this_logFactory ?lg)"
    by (simp add: consoleLogFactory_def heap_stable_makeConsoleLogFactory)
  have v: "getCurrentScope ?lg < length (heap ?w)"
    by (simp add: getCurrentScope_def)
  have g: "getCurrentScope ?lg = 0"
    by (simp add: getCurrentScope_def)
  have "deref ?w' (getCurrentScope ?lg) = deref ?w (getCurrentScope ?lg)
      \<and> getCurrentScope ?c \<noteq> getCurrentScope ?lg
      \<and> deref (assign_property (getCurrentScope ?c) ''a'' (JNum 7) ?w') (getCurrentScope ?lg)
          = deref ?w (getCurrentScope ?lg)"
    using scope_leaves_parent[OF s st v] by blast
  then have concl: "deref ?w' 0 ''a'' = Some (JNum 1) \<and> deref ?w' 0 ''b'' = None
      \<and> getCurrentScope ?c = 2
      \<and> deref ?w' 2 ''a'' = Some (JNum 2)
      \<and> deref (assign_property (getCurrentScope ?c) ''a'' (JNum 7) ?w') 0 ''a'' = Some (JNum 1)"
    unfolding g by (simp add: deref_def getCurrentScope_def)
  show ?thesis
    by (simp only: s prod.case sum.case) (rule concl)
qed

text \<open>
  C9. For every Logger and every additional scope, \<open>scope\<close> allocates the merged
  scope and calls the parent's stored factory on it, once. When the factory throws, so
  does \<open>scope\<close>; when it returns a function, \<open>scope\<close> returns the child that holds
  the parent's factory, the merged scope, and that function as its bound log function.
  The parent's bound log function plays no part: with any other function in its place,
  \<open>scope\<close> does the same.
\<close>

theorem scope_reinvokes_factory:
  "scope lg x (w, t) =
     (case this_logFactory lg (length (heap w))
             (snd (alloc (deref w (getCurrentScope lg) ++ deref w x) w)) of
        (Inl e, w') \<Rightarrow> (Inl e, (w', t @ [FactoryCall (this_logFactory lg) (length (heap w))]))
      | (Inr lf, w') \<Rightarrow>
          (Inr \<lparr>this_scope = length (heap w), this_logFactory = this_logFactory lg,
                this_log = lf\<rparr>,
           (w', t @ [FactoryCall (this_logFactory lg) (length (heap w))])))
   \<and> deref (snd (alloc (deref w (getCurrentScope lg) ++ deref w x) w)) (length (heap w))
       = deref w (getCurrentScope lg) ++ deref w x
   \<and> (\<forall>g. scope (lg\<lparr>this_log := g\<rparr>) x (w, t) = scope lg x (w, t))"
proof -
  have a: "scope lg x (w, t) =
     (case this_logFactory lg (length (heap w))
             (snd (alloc (deref w (getCurrentScope lg) ++ deref w x) w)) of
        (Inl e, w') \<Rightarrow> (Inl e, (w', t @ [FactoryCall (this_logFactory lg) (length (heap w))]))
      | (Inr lf, w') \<Rightarrow>
          (Inr \<lparr>this_scope = length (heap w), this_logFactory = this_logFactory lg,
                this_log = lf\<rparr>,
           (w', t @ [FactoryCall (this_logFactory lg) (length (heap w))])))"
    unfolding scope_unfold by (simp add: alloc_def spread_def getCurrentScope_def)
  have b: "deref (snd (alloc (deref w (getCurrentScope lg) ++ deref w x) w)) (length (heap w))
       = deref w (getCurrentScope lg) ++ deref w x"
    by (simp add: alloc_def deref_def)
  have c: "\<forall>g. scope (lg\<lparr>this_log := g\<rparr>) x (w, t) = scope lg x (w, t)"
    by (simp add: scope_unfold split: prod.splits sum.splits)
  from a b c show ?thesis by blast
qed

theorem scope_reinvokes_factory_witness:
  "scope \<lparr>this_scope = 0, this_logFactory = consoleLogFactory,
          this_log = consoleLogFunction default_ConsoleLogConfig 0\<rparr> 1
      (\<lparr>heap = [[''a'' \<mapsto> JNum 1], Map.empty], env = Map.empty, console = [], ext = ()\<rparr>, [])
    = (Inr \<lparr>this_scope = 2, this_logFactory = consoleLogFactory,
             this_log = consoleLogFunction default_ConsoleLogConfig 2\<rparr>,
       (\<lparr>heap = [[''a'' \<mapsto> JNum 1], Map.empty, [''a'' \<mapsto> JNum 1]], env = Map.empty,
          console = [], ext = ()\<rparr>,
        [FactoryCall consoleLogFactory 2]))
   \<and> consoleLogFunction default_ConsoleLogConfig 2 INFO ''m'' JUndefined
        \<lparr>heap = [[''a'' \<mapsto> JNum 1], Map.empty, [''a'' \<mapsto> JNum 1]], env = Map.empty,
          console = [], ext = ()\<rparr>
      \<noteq> consoleLogFunction default_ConsoleLogConfig 0 INFO ''m'' JUndefined
        \<lparr>heap = [[''a'' \<mapsto> JNum 1], Map.empty, [''a'' \<mapsto> JNum 1]], env = Map.empty,
          console = [], ext = ()\<rparr>"
proof -
  let ?P = "[''a'' \<mapsto> JNum 1]"
  let ?f = "consoleLogFactory :: unit LogFunctionFactory"
  let ?lg = "\<lparr>this_scope = 0, this_logFactory = ?f,
              this_log = consoleLogFunction default_ConsoleLogConfig 0\<rparr>"
  let ?w = "\<lparr>heap = [?P, Map.empty], env = Map.empty, console = [], ext = ()\<rparr>"
  let ?w' = "\<lparr>heap = [?P, Map.empty, ?P], env = Map.empty, console = [], ext = ()\<rparr>"
  have call: "this_logFactory ?lg (length (heap ?w))
             (snd (alloc (deref ?w (getCurrentScope ?lg) ++ deref ?w 1) ?w))
      = (Inr (consoleLogFunction default_ConsoleLogConfig 2), ?w')"
    by (simp add: consoleLogFactory_def makeConsoleLogFactory_def alloc_def deref_def
        getCurrentScope_def eval_nat_numeral)
  have "scope ?lg 1 (?w, []) =
     (case this_logFactory ?lg (length (heap ?w))
             (snd (alloc (deref ?w (getCurrentScope ?lg) ++ deref ?w 1) ?w)) of
        (Inl e, w') \<Rightarrow> (Inl e, (w', [] @ [FactoryCall (this_logFactory ?lg) (length (heap ?w))]))
      | (Inr lf, w') \<Rightarrow>
          (Inr \<lparr>this_scope = length (heap ?w), this_logFactory = this_logFactory ?lg,
                this_log = lf\<rparr>,
           (w', [] @ [FactoryCall (this_logFactory ?lg) (length (heap ?w))])))"
    using scope_reinvokes_factory[of ?lg 1 ?w "[]"] by blast
  then have s: "scope ?lg 1 (?w, []) =
      (Inr \<lparr>this_scope = 2, this_logFactory = ?f,
             this_log = consoleLogFunction default_ConsoleLogConfig 2\<rparr>,
       (?w', [FactoryCall ?f 2]))"
    unfolding call by simp
  have ne: "consoleLogFunction default_ConsoleLogConfig 2 INFO ''m'' JUndefined ?w'
      \<noteq> consoleLogFunction default_ConsoleLogConfig 0 INFO ''m'' JUndefined ?w'"
    by (simp add: consoleLogFunction_def default_ConsoleLogConfig_def)
  from s ne show ?thesis by blast
qed



section \<open>Construction and the level methods\<close>

text \<open>
  C3. \<open>new Logger(factory, scope)\<close> makes exactly one call, on the factory, with the
  scope reference it was given; what it returns and the world it leaves are that call's:
  the factory's exception if it threw, and otherwise a Logger whose bound log function is
  the function the factory returned. With the scope omitted, the call is made with a fresh
  object that has no property.
\<close>

theorem Logger_new_invokes_factory_once:
  "Logger_new f (Some r) (w, t) =
     (case f r w of
        (Inl e, w') \<Rightarrow> (Inl e, (w', t @ [FactoryCall f r]))
      | (Inr lf, w') \<Rightarrow>
          (Inr \<lparr>this_scope = r, this_logFactory = f, this_log = lf\<rparr>, (w', t @ [FactoryCall f r])))
   \<and> Logger_new f None (w, t) =
       Logger_new f (Some (length (heap w))) (w\<lparr>heap := heap w @ [Map.empty]\<rparr>, t)
   \<and> deref (w\<lparr>heap := heap w @ [Map.empty]\<rparr>) (length (heap w)) = Map.empty"
  by (simp add: Logger_new_def invoke_factory_def alloc_def deref_def split: prod.splits sum.splits)

theorem Logger_new_invokes_factory_once_witness:
  "Logger_new consoleLogFactory None
      (\<lparr>heap = [], env = Map.empty, console = [], ext = ()\<rparr>, [])
    = (Inr \<lparr>this_scope = 0, this_logFactory = consoleLogFactory,
             this_log = consoleLogFunction default_ConsoleLogConfig 0\<rparr>,
       (\<lparr>heap = [Map.empty], env = Map.empty, console = [], ext = ()\<rparr>,
        [FactoryCall consoleLogFactory 0]))"
proof -
  let ?w = "\<lparr>heap = [], env = Map.empty, console = [], ext = ()\<rparr>"
  let ?w1 = "\<lparr>heap = [Map.empty :: obj], env = Map.empty, console = [], ext = ()\<rparr>"
  note inst = Logger_new_invokes_factory_once[of consoleLogFactory _ ?w "[]"]
  have a: "?w\<lparr>heap := heap ?w @ [Map.empty]\<rparr> = ?w1"
    by simp
  have f: "consoleLogFactory 0 ?w1 = (Inr (consoleLogFunction default_ConsoleLogConfig 0), ?w1)"
    by (simp add: consoleLogFactory_def makeConsoleLogFactory_def)
  have "Logger_new consoleLogFactory None (?w, [])
      = Logger_new consoleLogFactory (Some (length (heap ?w))) (?w\<lparr>heap := heap ?w @ [Map.empty]\<rparr>, [])"
    using inst by blast
  also have "\<dots> = Logger_new consoleLogFactory (Some 0) (?w1, [])"
    by simp
  also have "\<dots> = (Inr \<lparr>this_scope = 0, this_logFactory = consoleLogFactory,
             this_log = consoleLogFunction default_ConsoleLogConfig 0\<rparr>,
       (?w1, [FactoryCall consoleLogFactory 0]))"
    using Logger_new_invokes_factory_once[of consoleLogFactory 0 ?w1 "[]"] by (simp add: f)
  finally show ?thesis .
qed

text \<open>
  C4. Each of \<open>error\<close>, \<open>warn\<close>, \<open>info\<close>, \<open>debug\<close> makes exactly one call, on the
  Logger's bound log function, with the level \<open>ERROR\<close>, \<open>WARNING\<close>, \<open>INFO\<close>,
  \<open>DEBUG\<close> respectively (whose string values are "error", "warning", "info", "debug":
  \<open>warn\<close> passes "warning"), the given message and the given metadata (\<open>JUndefined\<close>
  when omitted); the world it leaves and the value or exception it yields are those of
  that one call.
\<close>

theorem level_methods_pass_through:
  "error lg message meta (w, t) =
     (fst (this_log lg ERROR message meta w),
      snd (this_log lg ERROR message meta w), t @ [LogCall (this_log lg) ERROR message meta])
   \<and> warn lg message meta (w, t) =
     (fst (this_log lg WARNING message meta w),
      snd (this_log lg WARNING message meta w), t @ [LogCall (this_log lg) WARNING message meta])
   \<and> info lg message meta (w, t) =
     (fst (this_log lg INFO message meta w),
      snd (this_log lg INFO message meta w), t @ [LogCall (this_log lg) INFO message meta])
   \<and> debug lg message meta (w, t) =
     (fst (this_log lg DEBUG message meta w),
      snd (this_log lg DEBUG message meta w), t @ [LogCall (this_log lg) DEBUG message meta])
   \<and> LogLevel_value ERROR = ''error'' \<and> LogLevel_value WARNING = ''warning''
   \<and> LogLevel_value INFO = ''info'' \<and> LogLevel_value DEBUG = ''debug''"
  by (simp add: error_def warn_def info_def debug_def invoke_log_def split: prod.splits)

theorem level_methods_pass_through_witness:
  "warn \<lparr>this_scope = 0, this_logFactory = consoleLogFactory,
         this_log = consoleLogFunction default_ConsoleLogConfig 0\<rparr>
      ''careful'' (JRef 1)
      (\<lparr>heap = [Map.empty, [''n'' \<mapsto> JNum 4]], env = Map.empty, console = [], ext = ()\<rparr>, [])
   = (Inr JUndefined,
      \<lparr>heap = [Map.empty, [''n'' \<mapsto> JNum 4]], env = Map.empty,
        console = [(console_warn, ''%s: %s (%O)'', [JStr ''WARNING'', JStr ''careful'', JRef 0])],
        ext = ()\<rparr>,
      [LogCall (consoleLogFunction default_ConsoleLogConfig 0) WARNING ''careful'' (JRef 1)])"
proof -
  let ?lf = "consoleLogFunction default_ConsoleLogConfig 0 :: unit LogFunction"
  let ?lg = "\<lparr>this_scope = 0, this_logFactory = consoleLogFactory, this_log = ?lf\<rparr>"
  let ?w = "\<lparr>heap = [Map.empty, [''n'' \<mapsto> JNum 4]], env = Map.empty, console = [], ext = ()\<rparr>"
  have c: "?lf WARNING ''careful'' (JRef 1) ?w =
      (Inr JUndefined,
       ?w\<lparr>console := [(console_warn, ''%s: %s (%O)'', [JStr ''WARNING'', JStr ''careful'', JRef 0])]\<rparr>)"
    by (simp add: consoleLogFunction_def default_ConsoleLogConfig_def toUpperCase_def)
  have sel: "this_log ?lg = ?lf"
    by simp
  have "warn ?lg ''careful'' (JRef 1) (?w, []) =
     (fst (this_log ?lg WARNING ''careful'' (JRef 1) ?w),
      snd (this_log ?lg WARNING ''careful'' (JRef 1) ?w),
      [] @ [LogCall (this_log ?lg) WARNING ''careful'' (JRef 1)])"
    using level_methods_pass_through[of ?lg "''careful''" "JRef 1" ?w "[]"] by blast
  then show ?thesis
    unfolding sel c by simp
qed

section \<open>The console backend\<close>

text \<open>
  C6, as amended. Let \<open>lf\<close> be the log function that the console factory returns for
  a scope. A \<open>DEBUG\<close> call returns at once, the world untouched, when
  \<open>GRAPHILE_LOGGER_DEBUG\<close> is absent from the environment or is the empty string. A
  \<open>DEBUG\<close> call with the variable set to a non-empty string, and every \<open>ERROR\<close>,
  \<open>WARNING\<close> and \<open>INFO\<close> call whatever the variable, is forwarded: once
  \<open>formatParameters\<close> has returned its list, one console call is made with the format
  string and that list.
\<close>

theorem console_debug_gate:
  assumes "makeConsoleLogFactory ca sc w0 = (Inr lf, w0')"
    and "cfg = (case ca of None \<Rightarrow> default_ConsoleLogConfig | Some c \<Rightarrow> c)"
  shows "(level = DEBUG \<and> (env w ''GRAPHILE_LOGGER_DEBUG'' = None
                           \<or> env w ''GRAPHILE_LOGGER_DEBUG'' = Some [])
            \<longrightarrow> lf level message meta w = (Inr JUndefined, w))
    \<and> ((level \<noteq> DEBUG \<or> (\<exists>v. env w ''GRAPHILE_LOGGER_DEBUG'' = Some v \<and> v \<noteq> []))
          \<and> formatParameters cfg level message sc w = (Inr ps, w')
            \<longrightarrow> lf level message meta w =
                 (Inr JUndefined,
                  w'\<lparr>console := console w' @ [(console_method_of level, format cfg, ps)]\<rparr>))"
proof -
  have lf: "lf = consoleLogFunction cfg sc"
    using assms by (simp add: makeConsoleLogFactory_returns)
  show ?thesis
    unfolding lf by (auto simp: consoleLogFunction_def truthy_iff)
qed

theorem console_debug_gate_witness:
  "consoleLogFunction default_ConsoleLogConfig 0 DEBUG ''m'' JUndefined
      \<lparr>heap = [Map.empty], env = Map.empty, console = [], ext = ()\<rparr>
    = (Inr JUndefined, \<lparr>heap = [Map.empty], env = Map.empty, console = [], ext = ()\<rparr>)
   \<and> consoleLogFunction default_ConsoleLogConfig 0 DEBUG ''m'' JUndefined
      \<lparr>heap = [Map.empty], env = [''GRAPHILE_LOGGER_DEBUG'' \<mapsto> ''1''], console = [], ext = ()\<rparr>
    = (Inr JUndefined,
       \<lparr>heap = [Map.empty], env = [''GRAPHILE_LOGGER_DEBUG'' \<mapsto> ''1''],
         console = [(console_log, ''%s: %s (%O)'', [JStr ''DEBUG'', JStr ''m'', JRef 0])],
         ext = ()\<rparr>)
   \<and> consoleLogFunction default_ConsoleLogConfig 0 ERROR ''m'' JUndefined
      \<lparr>heap = [Map.empty], env = Map.empty, console = [], ext = ()\<rparr>
    = (Inr JUndefined,
       \<lparr>heap = [Map.empty], env = Map.empty,
         console = [(console_error, ''%s: %s (%O)'', [JStr ''ERROR'', JStr ''m'', JRef 0])],
         ext = ()\<rparr>)"
proof -
  let ?lf = "consoleLogFunction default_ConsoleLogConfig 0 :: unit LogFunction"
  let ?cfg = "default_ConsoleLogConfig :: unit ConsoleLogConfig"
  let ?w = "\<lparr>heap = [Map.empty], env = Map.empty, console = [], ext = ()\<rparr>"
  let ?w1 = "\<lparr>heap = [Map.empty], env = [''GRAPHILE_LOGGER_DEBUG'' \<mapsto> ''1''], console = [],
              ext = ()\<rparr>"
  have mk: "makeConsoleLogFactory None 0 ?w = (Inr ?lf, ?w)"
    by (simp add: makeConsoleLogFactory_def)
  have cfg: "?cfg = (case None of None \<Rightarrow> default_ConsoleLogConfig | Some c \<Rightarrow> c)"
    by simp
  have unset: "env ?w ''GRAPHILE_LOGGER_DEBUG'' = None"
    by simp
  have set1: "\<exists>v. env ?w1 ''GRAPHILE_LOGGER_DEBUG'' = Some v \<and> v \<noteq> []"
    by simp
  have fpD: "formatParameters ?cfg DEBUG ''m'' 0 ?w1
      = (Inr [JStr ''DEBUG'', JStr ''m'', JRef 0], ?w1)"
    by (simp add: default_ConsoleLogConfig_def toUpperCase_def)
  have fpE: "formatParameters ?cfg ERROR ''m'' 0 ?w
      = (Inr [JStr ''ERROR'', JStr ''m'', JRef 0], ?w)"
    by (simp add: default_ConsoleLogConfig_def toUpperCase_def)
  have fmt: "format ?cfg = ''%s: %s (%O)''"
    by (simp add: default_ConsoleLogConfig_def)
  have a: "?lf DEBUG ''m'' JUndefined ?w = (Inr JUndefined, ?w)"
    using console_debug_gate[OF mk cfg, where level = DEBUG and w = ?w and message = "''m''"
        and meta = JUndefined] unset by blast
  have b: "?lf DEBUG ''m'' JUndefined ?w1 =
      (Inr JUndefined,
       ?w1\<lparr>console := console ?w1 @
          [(console_method_of DEBUG, format ?cfg, [JStr ''DEBUG'', JStr ''m'', JRef 0])]\<rparr>)"
    using console_debug_gate[OF mk cfg, where level = DEBUG and w = ?w1 and message = "''m''"
        and meta = JUndefined and w' = ?w1] set1 fpD by blast
  have c: "?lf ERROR ''m'' JUndefined ?w =
      (Inr JUndefined,
       ?w\<lparr>console := console ?w @
          [(console_method_of ERROR, format ?cfg, [JStr ''ERROR'', JStr ''m'', JRef 0])]\<rparr>)"
    using console_debug_gate[OF mk cfg, where level = ERROR and w = ?w and message = "''m''"
        and meta = JUndefined and w' = ?w] fpE by blast
  show ?thesis
    unfolding a b c fmt by simp
qed

text \<open>
  The claim C6 as the specification states it (any value of the variable enables
  \<open>DEBUG\<close> output) fails: with \<open>GRAPHILE_LOGGER_DEBUG\<close> set to the empty string, the
  log function of the default console factory returns from a \<open>DEBUG\<close> call without
  a console call.
\<close>

theorem console_debug_gate_counterexample:
  "consoleLogFactory 0
      \<lparr>heap = [Map.empty], env = [''GRAPHILE_LOGGER_DEBUG'' \<mapsto> ''''], console = [], ext = ()\<rparr>
    = (Inr (consoleLogFunction default_ConsoleLogConfig 0),
       \<lparr>heap = [Map.empty], env = [''GRAPHILE_LOGGER_DEBUG'' \<mapsto> ''''], console = [], ext = ()\<rparr>)
   \<and> env \<lparr>heap = [Map.empty], env = [''GRAPHILE_LOGGER_DEBUG'' \<mapsto> ''''], console = [],
           ext = ()\<rparr> ''GRAPHILE_LOGGER_DEBUG'' = Some ''''
   \<and> consoleLogFunction default_ConsoleLogConfig 0 DEBUG ''m'' JUndefined
        \<lparr>heap = [Map.empty], env = [''GRAPHILE_LOGGER_DEBUG'' \<mapsto> ''''], console = [], ext = ()\<rparr>
      = (Inr JUndefined,
         \<lparr>heap = [Map.empty], env = [''GRAPHILE_LOGGER_DEBUG'' \<mapsto> ''''], console = [], ext = ()\<rparr>)"
  by (simp add: consoleLogFactory_def makeConsoleLogFactory_def consoleLogFunction_def truthy_def)

text \<open>
  C7. A forwarded message goes to the console method that its level alone selects:
  \<open>ERROR\<close> to \<open>console.error\<close>, \<open>WARNING\<close> to \<open>console.warn\<close>, \<open>INFO\<close> to
  \<open>console.info\<close>, and \<open>DEBUG\<close> (the variable being set, non-empty) to
  \<open>console.log\<close>, never to \<open>console.debug\<close>.
\<close>

theorem console_channel_by_level:
  assumes "makeConsoleLogFactory ca sc w0 = (Inr lf, w0')"
    and "cfg = (case ca of None \<Rightarrow> default_ConsoleLogConfig | Some c \<Rightarrow> c)"
    and "formatParameters cfg level message sc w = (Inr ps, w')"
    and "level = DEBUG \<longrightarrow> (\<exists>v. env w ''GRAPHILE_LOGGER_DEBUG'' = Some v \<and> v \<noteq> [])"
  shows "console (snd (lf level message meta w)) =
           console w' @ [(console_method_of level, format cfg, ps)]
    \<and> console_method_of level =
        (case level of ERROR \<Rightarrow> console_error | WARNING \<Rightarrow> console_warn
                     | INFO \<Rightarrow> console_info | DEBUG \<Rightarrow> console_log)
    \<and> console_method_of level \<noteq> console_debug"
proof -
  have lf: "lf = consoleLogFunction cfg sc"
    using assms(1,2) by (simp add: makeConsoleLogFactory_returns)
  have m: "console_method_of level =
        (case level of ERROR \<Rightarrow> console_error | WARNING \<Rightarrow> console_warn
                     | INFO \<Rightarrow> console_info | DEBUG \<Rightarrow> console_log)"
    by (cases level) simp_all
  have nd: "console_method_of level \<noteq> console_debug"
    by (cases level) simp_all
  have "console (snd (lf level message meta w)) =
           console w' @ [(console_method_of level, format cfg, ps)]"
    unfolding lf using assms(3,4) by (auto simp: consoleLogFunction_def truthy_iff)
  with m nd show ?thesis by blast
qed

theorem console_channel_by_level_witness:
  "console (snd (consoleLogFunction default_ConsoleLogConfig 0 DEBUG ''m'' JUndefined
      \<lparr>heap = [Map.empty], env = [''GRAPHILE_LOGGER_DEBUG'' \<mapsto> ''1''], console = [],
        ext = ()\<rparr>))
    = [(console_log, ''%s: %s (%O)'', [JStr ''DEBUG'', JStr ''m'', JRef 0])]
   \<and> console_method_of DEBUG = console_log"
proof -
  let ?lf = "consoleLogFunction default_ConsoleLogConfig 0 :: unit LogFunction"
  let ?cfg = "default_ConsoleLogConfig :: unit ConsoleLogConfig"
  let ?w1 = "\<lparr>heap = [Map.empty], env = [''GRAPHILE_LOGGER_DEBUG'' \<mapsto> ''1''], console = [],
              ext = ()\<rparr>"
  have mk: "makeConsoleLogFactory None 0 ?w1 = (Inr ?lf, ?w1)"
    by (simp add: makeConsoleLogFactory_def)
  have cfg: "?cfg = (case None of None \<Rightarrow> default_ConsoleLogConfig | Some c \<Rightarrow> c)"
    by simp
  have set1: "DEBUG = DEBUG \<longrightarrow> (\<exists>v. env ?w1 ''GRAPHILE_LOGGER_DEBUG'' = Some v \<and> v \<noteq> [])"
    by simp
  have fpD: "formatParameters ?cfg DEBUG ''m'' 0 ?w1
      = (Inr [JStr ''DEBUG'', JStr ''m'', JRef 0], ?w1)"
    by (simp add: default_ConsoleLogConfig_def toUpperCase_def)
  have fmt: "format ?cfg = ''%s: %s (%O)''"
    by (simp add: default_ConsoleLogConfig_def)
  have "console (snd (?lf DEBUG ''m'' JUndefined ?w1)) =
           console ?w1 @ [(console_method_of DEBUG, format ?cfg, [JStr ''DEBUG'', JStr ''m'', JRef 0])]
      \<and> console_method_of DEBUG =
        (case DEBUG of ERROR \<Rightarrow> console_error | WARNING \<Rightarrow> console_warn
                     | INFO \<Rightarrow> console_info | DEBUG \<Rightarrow> console_log)"
    using console_channel_by_level[OF mk cfg fpD set1, where meta = JUndefined] by blast
  then show ?thesis
    unfolding fmt by simp
qed

text \<open>
  C8. Under the default configuration, an \<open>INFO\<close> call with the message
  "Hello world!" makes the console call with the format string \<open>%s: %s (%O)\<close> and the
  parameters "INFO", "Hello world!" and the scope the factory was given. In general the
  parameters are the upper-cased level value, the message and the scope, and the call is
  the same whatever the metadata argument: it is not forwarded.
\<close>

theorem console_default_format:
  assumes "makeConsoleLogFactory None sc w0 = (Inr lf, w0')"
  shows "lf INFO ''Hello world!'' meta w =
           (Inr JUndefined,
            w\<lparr>console := console w @
                 [(console_info, ''%s: %s (%O)'', [JStr ''INFO'', JStr ''Hello world!'', JRef sc])]\<rparr>)
    \<and> (level \<noteq> DEBUG \<or> (\<exists>v. env w ''GRAPHILE_LOGGER_DEBUG'' = Some v \<and> v \<noteq> []) \<longrightarrow>
         lf level message meta w =
           (Inr JUndefined,
            w\<lparr>console := console w @
                 [(console_method_of level, ''%s: %s (%O)'',
                   [JStr (toUpperCase (LogLevel_value level)), JStr message, JRef sc])]\<rparr>))
    \<and> toUpperCase (LogLevel_value level) =
        (case level of ERROR \<Rightarrow> ''ERROR'' | WARNING \<Rightarrow> ''WARNING''
                     | INFO \<Rightarrow> ''INFO'' | DEBUG \<Rightarrow> ''DEBUG'')
    \<and> (\<forall>meta'. lf level message meta' w = lf level message meta w)"
proof -
  have lf: "lf = consoleLogFunction default_ConsoleLogConfig sc"
    using assms by (simp add: makeConsoleLogFactory_returns)
  have a: "lf INFO ''Hello world!'' meta w =
           (Inr JUndefined,
            w\<lparr>console := console w @
                 [(console_info, ''%s: %s (%O)'', [JStr ''INFO'', JStr ''Hello world!'', JRef sc])]\<rparr>)"
    unfolding lf by (simp add: consoleLogFunction_def default_ConsoleLogConfig_def toUpperCase_def)
  have b: "level \<noteq> DEBUG \<or> (\<exists>v. env w ''GRAPHILE_LOGGER_DEBUG'' = Some v \<and> v \<noteq> []) \<longrightarrow>
         lf level message meta w =
           (Inr JUndefined,
            w\<lparr>console := console w @
                 [(console_method_of level, ''%s: %s (%O)'',
                   [JStr (toUpperCase (LogLevel_value level)), JStr message, JRef sc])]\<rparr>)"
    unfolding lf by (auto simp: consoleLogFunction_def default_ConsoleLogConfig_def truthy_iff)
  have c: "\<forall>meta'. lf level message meta' w = lf level message meta w"
    unfolding lf by (simp add: consoleLogFunction_def)
  from a b c toUpperCase_LogLevel_value[of level] show ?thesis by blast
qed

theorem console_default_format_witness:
  "makeConsoleLogFactory None 0
      \<lparr>heap = [Map.empty], env = Map.empty, console = [], ext = ()\<rparr>
    = (Inr (consoleLogFunction default_ConsoleLogConfig 0),
       \<lparr>heap = [Map.empty], env = Map.empty, console = [], ext = ()\<rparr>)
   \<and> deref \<lparr>heap = [Map.empty], env = Map.empty, console = [], ext = ()\<rparr> 0 = Map.empty
   \<and> consoleLogFunction default_ConsoleLogConfig 0 INFO ''Hello world!'' (JRef 7)
      \<lparr>heap = [Map.empty], env = Map.empty, console = [], ext = ()\<rparr>
    = (Inr JUndefined,
       \<lparr>heap = [Map.empty], env = Map.empty,
         console = [(console_info, ''%s: %s (%O)'', [JStr ''INFO'', JStr ''Hello world!'', JRef 0])],
         ext = ()\<rparr>)"
proof -
  let ?lf = "consoleLogFunction default_ConsoleLogConfig 0 :: unit LogFunction"
  let ?w = "\<lparr>heap = [Map.empty], env = Map.empty, console = [], ext = ()\<rparr>"
  have mk: "makeConsoleLogFactory None 0 ?w = (Inr ?lf, ?w)"
    by (simp add: makeConsoleLogFactory_def)
  have d: "deref ?w 0 = Map.empty"
    by (simp add: deref_def)
  have "?lf INFO ''Hello world!'' (JRef 7) ?w =
           (Inr JUndefined,
            ?w\<lparr>console := console ?w @
                 [(console_info, ''%s: %s (%O)'', [JStr ''INFO'', JStr ''Hello world!'', JRef 0])]\<rparr>)"
    using console_default_format[OF mk, where meta = "JRef 7" and w = ?w] by blast
  then have "?lf INFO ''Hello world!'' (JRef 7) ?w =
      (Inr JUndefined,
       \<lparr>heap = [Map.empty], env = Map.empty,
         console = [(console_info, ''%s: %s (%O)'', [JStr ''INFO'', JStr ''Hello world!'', JRef 0])],
         ext = ()\<rparr>)"
    by simp
  with mk d show ?thesis by blast
qed

end
